theory Spec2Isabelle
  imports Complex_Main
begin

section \<open>Conventions of the embedding\<close>

text \<open>
  JavaScript numbers are modelled as exact reals: the decimal literals of the source are
  the rationals they denote and arithmetic is exact, so IEEE-754 rounding error, NaN and
  the infinities are outside the model. A function that can throw returns
  \<open>js_error + 'a\<close>, with \<open>Inl\<close> for the exception. String literals are copied from
  the source, a character outside ASCII dropped or spelled in ASCII (the degree sign of
  the temperature unit, the arrow in an event title).
\<close>

datatype js_error = TypeError

section \<open>Range table and classifier\<close>

record param_range =
  optimal :: "real \<times> real"
  watch :: "real \<times> real"
  critical :: "real \<times> real"
  unit :: string

type_synonym range_table = "(string \<times> param_range) list"

text \<open>\<open>PARAM_RANGES\<close> of the Gemini/Vertex analysis modules (two identical copies).\<close>

definition PARAM_RANGES :: range_table where
  "PARAM_RANGES =
    [(''pH'', \<lparr>optimal = (8.0, 8.3), watch = (7.8, 8.5), critical = (7.6, 8.7), unit = ''''\<rparr>),
     (''temp'', \<lparr>optimal = (76, 79), watch = (75, 80), critical = (73, 82), unit = ''F''\<rparr>),
     (''alk'', \<lparr>optimal = (7.5, 9.0), watch = (7.0, 10.0), critical = (6.0, 12.0), unit = ''dKH''\<rparr>),
     (''ca'', \<lparr>optimal = (400, 450), watch = (380, 480), critical = (350, 520), unit = ''mg/L''\<rparr>),
     (''mg'', \<lparr>optimal = (1300, 1400), watch = (1250, 1450), critical = (1200, 1500), unit = ''mg/L''\<rparr>),
     (''no3'', \<lparr>optimal = (2, 10), watch = (1, 15), critical = (0, 25), unit = ''ppm''\<rparr>),
     (''po4'', \<lparr>optimal = (0.03, 0.1), watch = (0.02, 0.15), critical = (0, 0.3), unit = ''ppm''\<rparr>),
     (''orp'', \<lparr>optimal = (300, 400), watch = (250, 420), critical = (200, 450), unit = ''mV''\<rparr>),
     (''salinity'', \<lparr>optimal = (1.025, 1.026), watch = (1.024, 1.027), critical = (1.020, 1.030), unit = ''sg''\<rparr>)]"

text \<open>\<open>PARAM_RANGES\<close> of the library-backed analysis module (the one that calls \<open>searchByTopics\<close>).\<close>

definition PARAM_RANGES_library :: range_table where
  "PARAM_RANGES_library =
    [(''pH'', \<lparr>optimal = (8.0, 8.3), watch = (7.8, 8.5), critical = (7.6, 8.7), unit = ''''\<rparr>),
     (''temp'', \<lparr>optimal = (76, 79), watch = (75, 80), critical = (73, 82), unit = ''F''\<rparr>),
     (''alk'', \<lparr>optimal = (7, 9), watch = (6.5, 10), critical = (5.5, 12), unit = ''dKH''\<rparr>),
     (''ca'', \<lparr>optimal = (400, 450), watch = (380, 480), critical = (350, 520), unit = ''ppm''\<rparr>),
     (''mg'', \<lparr>optimal = (1300, 1400), watch = (1250, 1450), critical = (1200, 1500), unit = ''ppm''\<rparr>),
     (''no3'', \<lparr>optimal = (2, 10), watch = (1, 15), critical = (0, 25), unit = ''ppm''\<rparr>),
     (''po4'', \<lparr>optimal = (0.03, 0.1), watch = (0.02, 0.15), critical = (0, 0.3), unit = ''ppm''\<rparr>),
     (''orp'', \<lparr>optimal = (300, 400), watch = (250, 420), critical = (200, 450), unit = ''mV''\<rparr>),
     (''sal'', \<lparr>optimal = (34, 36), watch = (33, 37), critical = (32, 38), unit = ''ppt''\<rparr>)]"

text \<open>
  \<open>PARAM_RANGES[param]\<close> is a property read on an object literal. It finds the literal's
  own property when \<open>param\<close> is one of its keys; otherwise the read continues along the
  prototype chain, and a name that \<open>Object.prototype\<close> defines yields that member
  (a function, or the prototype object itself for \<open>__proto__\<close>): a truthy value that has no
  \<open>optimal\<close> property. Every other name yields \<open>undefined\<close>.
\<close>

definition Object_prototype_names :: "string list" where
  "Object_prototype_names =
    [''constructor'', ''__defineGetter__'', ''__defineSetter__'', ''hasOwnProperty'',
     ''__lookupGetter__'', ''__lookupSetter__'', ''isPrototypeOf'', ''propertyIsEnumerable'',
     ''toString'', ''valueOf'', ''__proto__'', ''toLocaleString'']"

datatype property_read = Undefined | Own_ranges param_range | Prototype_member

definition property_of :: "range_table \<Rightarrow> string \<Rightarrow> property_read" where
  "property_of tbl param =
     (case map_of tbl param of
        Some ranges \<Rightarrow> Own_ranges ranges
      | None \<Rightarrow> if param \<in> set Object_prototype_names then Prototype_member else Undefined)"

definition in_band :: "real \<Rightarrow> real \<times> real \<Rightarrow> bool" where
  "in_band v band \<longleftrightarrow> v \<ge> fst band \<and> v \<le> snd band"

text \<open>
  \<open>assessParameter(param, value)\<close>, the table taken as a parameter because the source has
  the same function over two tables. On a prototype member \<open>!ranges\<close> is false and
  \<open>ranges.optimal\<close> is \<open>undefined\<close>, so \<open>ranges.optimal[0]\<close> throws a TypeError.
\<close>

definition assessParameter_on :: "range_table \<Rightarrow> string \<Rightarrow> real \<Rightarrow> js_error + string" where
  "assessParameter_on tbl param v =
     (case property_of tbl param of
        Undefined \<Rightarrow> Inr ''unknown''
      | Prototype_member \<Rightarrow> Inl TypeError
      | Own_ranges ranges \<Rightarrow>
          Inr (if in_band v (optimal ranges) then ''optimal''
               else if in_band v (watch ranges) then ''watch''
               else if in_band v (critical ranges) then ''critical''
               else ''danger''))"

definition assessParameter :: "string \<Rightarrow> real \<Rightarrow> js_error + string" where
  "assessParameter = assessParameter_on PARAM_RANGES"

definition assessParameter_library :: "string \<Rightarrow> real \<Rightarrow> js_error + string" where
  "assessParameter_library = assessParameter_on PARAM_RANGES_library"

definition registered :: "range_table \<Rightarrow> string \<Rightarrow> bool" where
  "registered tbl param \<longleftrightarrow> param \<in> set (map fst tbl)"

definition nested :: "param_range \<Rightarrow> bool" where
  "nested r \<longleftrightarrow>
     fst (watch r) \<le> fst (optimal r) \<and> snd (optimal r) \<le> snd (watch r) \<and>
     fst (critical r) \<le> fst (watch r) \<and> snd (watch r) \<le> snd (critical r)"

section \<open>Noise source and rounding\<close>

text \<open>
  \<open>Math.random()\<close> has no seed and no parameter: the values it returns come from the
  runtime. They are an input of the model, \<open>U i\<close> being the value of the \<open>i\<close>-th call, and
  the number of calls made so far is threaded through every function that draws.
\<close>

type_synonym draws = "nat \<Rightarrow> real"

definition Math_random :: "draws \<Rightarrow> nat \<Rightarrow> real \<times> nat" where
  "Math_random U k = (U k, Suc k)"

definition const_draws :: "real \<Rightarrow> draws" where
  "const_draws c = (\<lambda>i. c)"

text \<open>
  \<open>+(x.toFixed(digits))\<close>: the nearest multiple of \<open>10^-digits\<close>, a tie going to the
  larger magnitude; from \<open>10^21\<close> on \<open>toFixed\<close> prints the number itself.
\<close>

definition toFixed :: "nat \<Rightarrow> real \<Rightarrow> real" where
  "toFixed digits x =
     (if \<bar>x\<bar> \<ge> 10 ^ 21 then x
      else sgn x * real_of_int \<lfloor>\<bar>x\<bar> * 10 ^ digits + 1 / 2\<rfloor> / 10 ^ digits)"

definition Math_round :: "real \<Rightarrow> real" where
  "Math_round x = real_of_int \<lfloor>x + 1 / 2\<rfloor>"

definition jitter :: "draws \<Rightarrow> real \<Rightarrow> real \<Rightarrow> nat \<Rightarrow> real \<times> nat" where
  "jitter U v amount k =
     (case Math_random U k of (u, k') \<Rightarrow> (toFixed 2 (v + (u - 0.5) * 2 * amount), k'))"

section \<open>Readings\<close>

text \<open>
  A reading object: its parameter properties in the order the literal writes them. The
  timestamp is the epoch millisecond count of the \<open>Date\<close> whose ISO string the source
  stores; \<open>rid\<close> is the number in the id \<open>sim-reading-<n>\<close>, absent where the source
  writes no id.
\<close>

record reading =
  rid :: "int option"
  timestamp :: int
  source :: string
  params :: "(string \<times> real) list"

section \<open>Apex simulator: generateReadings\<close>

definition msPerDay :: int where
  "msPerDay = 86400000"

definition alkBase :: "int \<Rightarrow> real" where
  "alkBase d =
     (if d > 20 then 8.2
      else if d > 10 then 8.2 - (20 - real_of_int d) * 0.08
      else 7.4 + (10 - real_of_int d) * 0.06)"

definition caBase :: "int \<Rightarrow> real" where
  "caBase d =
     (if d > 20 then 440
      else if d > 10 then 440 + (20 - real_of_int d) * 3
      else 470 - (10 - real_of_int d) * 2)"

text \<open>The object pushed for reading \<open>r\<close> of day offset \<open>d\<close>; seven draws, in property order.\<close>

definition trident_reading :: "draws \<Rightarrow> int \<Rightarrow> int \<Rightarrow> nat \<Rightarrow> nat \<Rightarrow> reading \<times> nat" where
  "trident_reading U dayTime d r k =
     (case jitter U (alkBase d) 0.08 k of (alk_v, k1) \<Rightarrow>
      case jitter U (caBase d) 2 k1 of (ca_v, k2) \<Rightarrow>
      case jitter U 1350 5 k2 of (mg_v, k3) \<Rightarrow>
      case jitter U (8.32 + sin (real r * pi / 3) * 0.12) 0.02 k3 of (ph_v, k4) \<Rightarrow>
      case jitter U 77.8 0.3 k4 of (temp_v, k5) \<Rightarrow>
      case jitter U (if d > 15 then 5 else 5 + (15 - real_of_int d) * 0.6) 0.3 k5 of (no3_v, k6) \<Rightarrow>
      case jitter U (if d > 15 then 0.04 else 0.04 + (15 - real_of_int d) * 0.005) 0.005 k6
        of (po4_v, k7) \<Rightarrow>
      (\<lparr>rid = None, timestamp = dayTime + int r * 4 * 3600000, source = ''trident'',
        params = [(''alk'', alk_v), (''ca'', ca_v), (''mg'', mg_v), (''ph'', ph_v),
                  (''temp'', temp_v), (''no3'', no3_v), (''po4'', po4_v)]\<rparr>, k7))"

text \<open>\<open>for (let r = 0; r < 6; r++)\<close>, pushing onto \<open>readings\<close>.\<close>

function reading_loop ::
  "draws \<Rightarrow> int \<Rightarrow> int \<Rightarrow> nat \<Rightarrow> nat \<Rightarrow> reading list \<Rightarrow> reading list \<times> nat" where
  "reading_loop U dayTime d r k readings =
     (if r < 6 then
        (case trident_reading U dayTime d r k of (x, k') \<Rightarrow>
           reading_loop U dayTime d (Suc r) k' (readings @ [x]))
      else (readings, k))"
  by pat_completeness auto
termination
  by (relation "measure (\<lambda>(U, dayTime, d, r, k, readings). 6 - r)") auto

declare reading_loop.simps [simp del]

text \<open>\<open>for (let d = days; d >= 0; d--)\<close>.\<close>

function day_loop ::
  "draws \<Rightarrow> int \<Rightarrow> int \<Rightarrow> nat \<Rightarrow> reading list \<Rightarrow> reading list \<times> nat" where
  "day_loop U now d k readings =
     (if d \<ge> 0 then
        (case reading_loop U (now - d * msPerDay) d 0 k readings of (readings', k') \<Rightarrow>
           day_loop U now (d - 1) k' readings')
      else (readings, k))"
  by pat_completeness auto
termination
  by (relation "measure (\<lambda>(U, now, d, k, readings). nat (d + 1))") auto

declare day_loop.simps [simp del]

text \<open>
  \<open>generateReadings(days)\<close>: \<open>now\<close> is the value \<open>Date.now()\<close> returns, \<open>k\<close> the number of
  draws made before the call. The result is the array and the number of draws made after.
\<close>

definition generateReadings :: "draws \<Rightarrow> int \<Rightarrow> int \<Rightarrow> nat \<Rightarrow> reading list \<times> nat" where
  "generateReadings U now days k = day_loop U now days k []"

definition allReadings :: "draws \<Rightarrow> int \<Rightarrow> nat \<Rightarrow> reading list \<times> nat" where
  "allReadings U now k = generateReadings U now 30 k"

section \<open>Desktop simulator: module state and initializeSimulatorData\<close>

record event =
  ev_id :: string
  ev_type :: string
  ev_title :: string
  ev_details :: string
  ev_date :: int
  ev_source :: string

record citation =
  cit_source :: string
  cit_text :: string
  cit_relevance :: string

record analysis =
  an_id :: int
  an_type :: string
  an_date :: int
  diagnosis :: string
  confidence :: real
  severity :: string
  recommendations :: "string list"
  citations :: "citation list"

text \<open>
  The module-level object \<open>simulatorData\<close>. It is shared by every request, so each
  function that touches it takes the current object and returns the new one. The tank
  profile is never inspected by the functions below and stays a type parameter.
\<close>

record 'tank simulatorData =
  tank :: 'tank
  readings :: "reading list"
  events :: "event list"
  analyses :: "analysis list"

definition dayMs :: int where
  "dayMs = 24 * 60 * 60 * 1000"

definition alkValue :: "int \<Rightarrow> real" where
  "alkValue i =
     (if i \<le> 27 \<and> i > 15 then 8.2 - ((27 - real_of_int i) / 12) * 0.8
      else if i \<le> 15 \<and> i > 3 then 7.4 - ((15 - real_of_int i) / 12) * 0.4
      else if i \<le> 3 then 7.0 + ((3 - real_of_int i) / 3) * 0.9
      else 8.2)"

definition caValue :: "int \<Rightarrow> real" where
  "caValue i =
     (if i \<le> 27 \<and> i > 15 then 440 + ((27 - real_of_int i) / 12) * 30
      else if i \<le> 15 \<and> i > 3 then 470 + ((15 - real_of_int i) / 12) * 40
      else if i \<le> 3 then 510 - ((3 - real_of_int i) / 3) * 10
      else 440)"

text \<open>
  The object pushed for day offset \<open>i\<close>; six draws, in property order. The source also
  computes a \<open>no3Value\<close> for the day, which it never writes into the object.
\<close>

definition story_reading :: "draws \<Rightarrow> int \<Rightarrow> int \<Rightarrow> nat \<Rightarrow> reading \<times> nat" where
  "story_reading U now i k =
     (case Math_random U k of (u1, k1) \<Rightarrow>
      case Math_random U k1 of (u2, k2) \<Rightarrow>
      case Math_random U k2 of (u3, k3) \<Rightarrow>
      case Math_random U k3 of (u4, k4) \<Rightarrow>
      case Math_random U k4 of (u5, k5) \<Rightarrow>
      case Math_random U k5 of (u6, k6) \<Rightarrow>
      (\<lparr>rid = Some (now - i * dayMs), timestamp = now - i * dayMs, source = ''trident'',
        params = [(''alk'', toFixed 2 (alkValue i + (u1 - 0.5) * 0.16)),
                  (''ca'', Math_round (caValue i + (u2 - 0.5) * 6)),
                  (''mg'', Math_round (1350 + (u3 - 0.5) * 16)),
                  (''ph'', toFixed 2 (8.25 + (u4 - 0.5) * 0.3)),
                  (''temp'', toFixed 1 (77.8 + (u5 - 0.5) * 1.2)),
                  (''orp'', Math_round (325 + (u6 - 0.5) * 20))]\<rparr>, k6))"

text \<open>\<open>for (let i = 30; i >= 0; i--)\<close>, pushing onto \<open>simulatorData.readings\<close>.\<close>

function story_loop ::
  "draws \<Rightarrow> int \<Rightarrow> int \<Rightarrow> nat \<Rightarrow> reading list \<Rightarrow> reading list \<times> nat" where
  "story_loop U now i k rs =
     (if i \<ge> 0 then
        (case story_reading U now i k of (x, k') \<Rightarrow> story_loop U now (i - 1) k' (rs @ [x]))
      else (rs, k))"
  by pat_completeness auto
termination
  by (relation "measure (\<lambda>(U, now, i, k, rs). nat (i + 1))") auto

declare story_loop.simps [simp del]

definition story_events :: "int \<Rightarrow> event list" where
  "story_events now =
    [\<lparr>ev_id = ''sim-event-1'', ev_type = ''test'', ev_title = ''ICP Test Results'',
      ev_details = ''All parameters within range'', ev_date = now - 30 * dayMs,
      ev_source = ''user-entered''\<rparr>,
     \<lparr>ev_id = ''sim-event-2'', ev_type = ''dosing'', ev_title = ''Started Ammonium + Urea Dosing'',
      ev_details = ''Testing for nitrate reduction'', ev_date = now - 27 * dayMs,
      ev_source = ''user-entered''\<rparr>,
     \<lparr>ev_id = ''sim-event-3'', ev_type = ''maintenance'', ev_title = ''Dino Treatment Started'',
      ev_details = ''UV sterilizer + blackout period'', ev_date = now - 24 * dayMs,
      ev_source = ''user-entered''\<rparr>,
     \<lparr>ev_id = ''sim-event-4'', ev_type = ''dosing'', ev_title = ''A4R Reduced 210->160 mL/day'',
      ev_details = ''Calcium too high'', ev_date = now - 15 * dayMs,
      ev_source = ''user-entered''\<rparr>,
     \<lparr>ev_id = ''sim-event-5'', ev_type = ''dosing'', ev_title = ''Ammonium Pump Stopped'',
      ev_details = ''Suspected cause of alk crash'', ev_date = now - 3 * dayMs,
      ev_source = ''user-entered''\<rparr>,
     \<lparr>ev_id = ''sim-event-6'', ev_type = ''dosing'', ev_title = ''A4R Increased to 180 mL/day'',
      ev_details = ''Correcting alk drop'', ev_date = now - 3 * dayMs,
      ev_source = ''user-entered''\<rparr>]"

definition initializeSimulatorData ::
  "draws \<Rightarrow> int \<Rightarrow> nat \<Rightarrow> 'tank simulatorData \<Rightarrow> 'tank simulatorData \<times> nat" where
  "initializeSimulatorData U now k s =
     (if length (readings s) > 0 then (s, k)
      else (case story_loop U now 30 k (readings s) of (rs, k') \<Rightarrow>
              (s\<lparr>readings := rs, events := story_events now\<rparr>, k')))"

section \<open>Desktop simulator: routes\<close>

text \<open>\<open>simulator.generateReading()\<close>; both clock reads of one call return \<open>now\<close>.\<close>

definition generateReading :: "draws \<Rightarrow> int \<Rightarrow> nat \<Rightarrow> reading \<times> nat" where
  "generateReading U now k =
     (case jitter U 8.1 0.08 k of (alk_v, k1) \<Rightarrow>
      case jitter U 438 3 k1 of (ca_v, k2) \<Rightarrow>
      case jitter U 1350 8 k2 of (mg_v, k3) \<Rightarrow>
      case jitter U 8.32 0.02 k3 of (ph_v, k4) \<Rightarrow>
      case jitter U 77.8 0.3 k4 of (temp_v, k5) \<Rightarrow>
      case jitter U 325 5 k5 of (orp_v, k6) \<Rightarrow>
      (\<lparr>rid = Some now, timestamp = now, source = ''trident'',
        params = [(''alk'', alk_v), (''ca'', ca_v), (''mg'', mg_v), (''ph'', ph_v),
                  (''temp'', temp_v), (''orp'', orp_v)]\<rparr>, k6))"

text \<open>\<open>POST /tanks/:tankId/readings\<close>: the response, the new module state, the draws made.\<close>

definition post_readings ::
  "draws \<Rightarrow> int \<Rightarrow> nat \<Rightarrow> 'tank simulatorData \<Rightarrow> reading \<times> 'tank simulatorData \<times> nat" where
  "post_readings U now k s =
     (case generateReading U now k of (reading, k') \<Rightarrow>
        (reading, s\<lparr>readings := reading # readings s\<rparr>, k'))"

text \<open>\<open>POST /tanks/:tankId/analyze\<close> of the simulator: a fixed mock analysis.\<close>

definition mock_analysis :: "int \<Rightarrow> analysis" where
  "mock_analysis now =
     \<lparr>an_id = now, an_type = ''user-requested'', an_date = now,
      diagnosis = ''Alkalinity crash likely caused by nitrification from urea/ammonium dosing consuming alk. Calcium elevated due to reduced All-For-Reef dosing.'',
      confidence = 95, severity = ''high'',
      recommendations =
        [''Stop ammonium dosing immediately'',
         ''Increase All-For-Reef to 180-200 mL/day to restore alk'',
         ''Monitor alk every 12 hours for next 48 hours'',
         ''Once alk stabilizes above 7.5, resume normal dosing schedule''],
      citations =
        [\<lparr>cit_source = ''Randy Holmes-Farley'',
          cit_text = ''Nitrification consumes alkalinity at a rate of ~7 dKH per 1 ppm ammonia converted'',
          cit_relevance = ''Explains the mechanism of alkalinity consumption from urea dosing''\<rparr>]\<rparr>"

definition post_analyze :: "int \<Rightarrow> 'tank simulatorData \<Rightarrow> analysis \<times> 'tank simulatorData" where
  "post_analyze now s = (mock_analysis now, s)"

definition simulatorData_init :: "'tank \<Rightarrow> 'tank simulatorData" where
  "simulatorData_init t = \<lparr>tank = t, readings = [], events = [], analyses = []\<rparr>"

section \<open>Cloud server: the analyze route\<close>

text \<open>
  The route awaits the storage layer and the language-model call. What each call resolves
  to, or that it rejects, is an input: the route's own control flow is what is modelled.
  \<open>analyzeTank\<close> resolves to \<open>{ok: false, error}\<close> (\<open>Inl\<close>) or \<open>{ok: true, analysis}\<close>
  (\<open>Inr\<close>); its last argument \<open>tank.dosing || {}\<close> is read off the tank it is given.
  The user and tank ids of the request are fixed, and the request is taken to have passed
  \<open>requireAuth\<close>.
\<close>

datatype 'a awaited = Rejected | Resolved 'a

record 'an analysisData =
  ad_type :: string
  ad_analysis :: 'an
  readingCount :: nat
  eventCount :: nat
  daysAnalyzed :: nat

record ('tank, 'rd, 'ev, 'an, 'st) backend =
  getTank :: "'tank option awaited"
  getReadings :: "nat \<Rightarrow> 'rd list awaited"
  getEvents :: "nat \<Rightarrow> 'ev list awaited"
  analyzeTank :: "'tank \<Rightarrow> 'rd \<Rightarrow> 'rd list \<Rightarrow> 'ev list \<Rightarrow> (string + 'an) awaited"
  addAnalysis :: "'an analysisData \<Rightarrow> 'st awaited"

datatype 'st body = Error_body string | Analysis_body 'st

datatype 'st response = Response (status: nat) (payload: "'st body")

definition analyze_failed :: "'st response" where
  "analyze_failed = Response 500 (Error_body ''AI analysis failed'')"

definition analyze_route :: "('tank, 'rd, 'ev, 'an, 'st) backend \<Rightarrow> 'st response" where
  "analyze_route b =
     (case getTank b of
        Rejected \<Rightarrow> analyze_failed
      | Resolved None \<Rightarrow> Response 404 (Error_body ''Tank not found'')
      | Resolved (Some tnk) \<Rightarrow>
     (case getReadings b 7 of
        Rejected \<Rightarrow> analyze_failed
      | Resolved recentReadings \<Rightarrow>
     (case getEvents b 10 of
        Rejected \<Rightarrow> analyze_failed
      | Resolved recentEvents \<Rightarrow>
     (case recentReadings of
        [] \<Rightarrow> Response 400 (Error_body ''No readings available. Add readings first.'')
      | currentReadings # _ \<Rightarrow>
     (case analyzeTank b tnk currentReadings recentReadings recentEvents of
        Rejected \<Rightarrow> analyze_failed
      | Resolved (Inl err) \<Rightarrow> Response 500 (Error_body err)
      | Resolved (Inr result) \<Rightarrow>
     (case addAnalysis b \<lparr>ad_type = ''user-requested'', ad_analysis = result,
                          readingCount = length recentReadings,
                          eventCount = length recentEvents, daysAnalyzed = 7\<rparr> of
        Rejected \<Rightarrow> analyze_failed
      | Resolved stored \<Rightarrow> Response 200 (Analysis_body stored)))))))"

text \<open>
  A backend whose tank exists and whose trailing window is empty; the model call, were it
  reached, would answer with the analysis \<open>()\<close>.
\<close>

definition empty_window_backend :: "(unit, unit, unit, unit, unit analysisData) backend" where
  "empty_window_backend =
     \<lparr>getTank = Resolved (Some ()),
      getReadings = (\<lambda>daysBack. Resolved []),
      getEvents = (\<lambda>limit. Resolved []),
      analyzeTank = (\<lambda>tnk cur recent evs. Resolved (Inr ())),
      addAnalysis = (\<lambda>d. Resolved d)\<rparr>"

text \<open>
  What the interface table asks of an empty trailing window: a normal (status 200) answer
  carrying an analysis, as opposed to an error.
\<close>

definition normal_result :: "'st response \<Rightarrow> bool" where
  "normal_result resp \<longleftrightarrow> (case resp of Response st (Analysis_body x) \<Rightarrow> st = 200 | _ \<Rightarrow> False)"

text \<open>The \<open>alk\<close> row of \<open>PARAM_RANGES\<close>, for the worked examples.\<close>

definition alk_ranges :: param_range where
  "alk_ranges = \<lparr>optimal = (7.5, 9.0), watch = (7.0, 10.0), critical = (6.0, 12.0), unit = ''dKH''\<rparr>"

section \<open>Auxiliary notions for the proofs\<close>



section \<open>Rounding and noise\<close>





section \<open>Classifier\<close>

lemma property_of_own: "map_of tbl p = Some r \<Longrightarrow> property_of tbl p = Own_ranges r"
  by (simp add: property_of_def)

text \<open>
  Claim C3. For a parameter registered in the table, \<open>assessParameter\<close> answers
  \<open>optimal\<close> for every value inside the optimal band, its two endpoints included (the
  optimal test comes first, so a boundary value takes the narrower tier), and \<open>danger\<close>
  for every value outside all three bands.
\<close>

theorem classify_optimal_and_danger:
  assumes "map_of tbl p = Some r"
  shows "(in_band v (optimal r) \<longrightarrow> assessParameter_on tbl p v = Inr ''optimal'') \<and>
         (\<not> in_band v (optimal r) \<and> \<not> in_band v (watch r) \<and> \<not> in_band v (critical r)
            \<longrightarrow> assessParameter_on tbl p v = Inr ''danger'')"
  using assms by (simp add: assessParameter_on_def property_of_own)

theorem classify_optimal_and_danger_witness:
  "map_of PARAM_RANGES ''alk'' = Some alk_ranges \<and>
   in_band 9 (optimal alk_ranges) \<and> assessParameter ''alk'' 9 = Inr ''optimal'' \<and>
   \<not> in_band 13 (optimal alk_ranges) \<and> \<not> in_band 13 (watch alk_ranges) \<and>
   \<not> in_band 13 (critical alk_ranges) \<and> assessParameter ''alk'' 13 = Inr ''danger''"
proof -
  have m: "map_of PARAM_RANGES ''alk'' = Some alk_ranges"
    by (simp add: PARAM_RANGES_def alk_ranges_def)
  have i: "in_band 9 (optimal alk_ranges)"
    by (simp add: in_band_def alk_ranges_def)
  have o: "\<not> in_band 13 (optimal alk_ranges) \<and> \<not> in_band 13 (watch alk_ranges) \<and>
           \<not> in_band 13 (critical alk_ranges)"
    by (simp add: in_band_def alk_ranges_def)
  from classify_optimal_and_danger [OF m, of 9] i
  have a: "assessParameter ''alk'' 9 = Inr ''optimal''"
    unfolding assessParameter_def by blast
  from classify_optimal_and_danger [OF m, of 13] o
  have b: "assessParameter ''alk'' 13 = Inr ''danger''"
    unfolding assessParameter_def by blast
  from m i o a b show ?thesis by blast
qed

text \<open>
  Claim C7. In both range tables every row is nested: the optimal band lies inside the
  watch band and the watch band inside the critical band, endpoint by endpoint.
\<close>

theorem range_tables_nested:
  "\<forall>(p, r) \<in> set PARAM_RANGES \<union> set PARAM_RANGES_library. nested r"
  by (simp add: PARAM_RANGES_def PARAM_RANGES_library_def nested_def)

theorem range_tables_nested_witness:
  "(''alk'', alk_ranges) \<in> set PARAM_RANGES \<union> set PARAM_RANGES_library \<and> nested alk_ranges"
proof -
  have m: "(''alk'', alk_ranges) \<in> set PARAM_RANGES \<union> set PARAM_RANGES_library"
    by (simp add: PARAM_RANGES_def alk_ranges_def)
  with range_tables_nested have "nested alk_ranges" by blast
  with m show ?thesis by blast
qed

text \<open>
  Claim C8 says that every unregistered parameter name is answered with \<open>unknown\<close>.
  The name \<open>constructor\<close> is not a key of either table, yet the property read finds
  \<open>Object.prototype.constructor\<close>, the guard \<open>!ranges\<close> does not fire and
  \<open>ranges.optimal[0]\<close> throws.
\<close>

theorem assessParameter_inherited_name_throws:
  "\<not> registered PARAM_RANGES ''constructor'' \<and>
   assessParameter ''constructor'' 8 = Inl TypeError \<and>
   \<not> registered PARAM_RANGES_library ''constructor'' \<and>
   assessParameter_library ''constructor'' 8 = Inl TypeError"
  by (simp add: registered_def assessParameter_def assessParameter_library_def
      assessParameter_on_def property_of_def PARAM_RANGES_def PARAM_RANGES_library_def
      Object_prototype_names_def)

text \<open>Away from the names \<open>Object.prototype\<close> defines, the guard does what C8 says.\<close>

lemma assessParameter_on_unknown:
  assumes "\<not> registered tbl p" and "p \<notin> set Object_prototype_names"
  shows "assessParameter_on tbl p v = Inr ''unknown''"
proof -
  have "map_of tbl p = None" using assms(1) by (simp add: registered_def map_of_eq_None_iff)
  then show ?thesis using assms(2) by (simp add: assessParameter_on_def property_of_def)
qed

section \<open>The generators: loop invariants\<close>



















lemma story_loop_length: "length (fst (story_loop U now i k acc)) = length acc + nat (i + 1)"
proof (induction U now i k acc rule: story_loop.induct)
  case (1 U now i k acc)
  show ?case
  proof (cases "i \<ge> 0")
    case True
    obtain x k' where x: "story_reading U now i k = (x, k')" by (cases "story_reading U now i k")
    have "length (fst (story_loop U now (i - 1) k' (acc @ [x]))) = length (acc @ [x]) + nat (i - 1 + 1)"
      by (rule "1.IH" [OF True x [symmetric]])
    moreover have "nat (i + 1) = Suc (nat i)" using True by simp
    ultimately show ?thesis using True x by (subst story_loop.simps) simp
  next
    case False
    then show ?thesis by (subst story_loop.simps) simp
  qed
qed





lemma initializeSimulatorData_fresh:
  "readings s = [] \<Longrightarrow>
   readings (fst (initializeSimulatorData U now k s)) = fst (story_loop U now 30 k [])"
  by (simp add: initializeSimulatorData_def split: prod.splits)

section \<open>The generators: claims\<close>










section \<open>The analyze routes\<close>

text \<open>
  Claim C2, as the code has it. When the trailing window is empty the cloud route never
  answers with an analysis: it answers with an error, and with status 400 and the message
  \<open>No readings available. Add readings first.\<close> once the tank and the events have been
  read. The simulator route answers an empty store with its fixed mock analysis.
\<close>

theorem analyze_empty_window:
  assumes "getReadings b 7 = Resolved []"
  shows "\<not> normal_result (analyze_route b) \<and>
         (getTank b = Resolved (Some tnk) \<and> getEvents b 10 = Resolved evs \<longrightarrow>
            analyze_route b
              = Response 400 (Error_body ''No readings available. Add readings first.'')) \<and>
         fst (post_analyze now (s\<lparr>readings := []\<rparr>)) = mock_analysis now"
  using assms
  by (simp add: analyze_route_def normal_result_def analyze_failed_def post_analyze_def
      split: awaited.splits option.splits)

theorem analyze_empty_window_witness:
  "getReadings empty_window_backend 7 = Resolved [] \<and>
   getTank empty_window_backend = Resolved (Some ()) \<and>
   getEvents empty_window_backend 10 = Resolved [] \<and>
   \<not> normal_result (analyze_route empty_window_backend) \<and>
   analyze_route empty_window_backend
     = Response 400 (Error_body ''No readings available. Add readings first.'')"
proof -
  have r: "getReadings empty_window_backend 7 = Resolved []"
    by (simp add: empty_window_backend_def)
  have t: "getTank empty_window_backend = Resolved (Some ())"
    by (simp add: empty_window_backend_def)
  have e: "getEvents empty_window_backend 10 = Resolved []"
    by (simp add: empty_window_backend_def)
  from analyze_empty_window [OF r, of "()" "[]"] r t e show ?thesis by blast
qed

text \<open>
  Claim C2 as stated fails: with a tank and an empty trailing window the route returns an
  error, not a diagnosis.
\<close>

theorem analyze_empty_window_counterexample:
  "analyze_route empty_window_backend
     = Response 400 (Error_body ''No readings available. Add readings first.'') \<and>
   \<not> normal_result (analyze_route empty_window_backend)"
  by (simp add: analyze_route_def empty_window_backend_def normal_result_def)


section \<open>Module state of the simulator\<close>

lemma initializeSimulatorData_nonempty:
  "readings (fst (initializeSimulatorData U now k s)) \<noteq> []"
proof (cases "readings s = []")
  case True
  have "length (fst (story_loop U now 30 k [])) = 31" by (simp add: story_loop_length)
  then have "fst (story_loop U now 30 k []) \<noteq> []" by auto
  then show ?thesis by (simp add: initializeSimulatorData_fresh [OF True])
next
  case False
  then show ?thesis by (simp add: initializeSimulatorData_def)
qed

text \<open>
  Claim C9, as the code has it. The simulator keeps its readings and events in the
  module-level \<open>simulatorData\<close>, which requests read and write.
  \<open>initializeSimulatorData\<close> does nothing on a store that has readings; on an empty one
  it writes 31 readings and the story's events and leaves the tank and the analyses alone;
  once it has run, running it again changes nothing. \<open>POST /tanks/:tankId/readings\<close>
  prepends the reading it answers with and leaves the rest of the store alone. The
  simulator's analyze route leaves the store as it is. (\<open>assessParameter\<close> reads only the
  constant table, which is why its model takes no store.)
\<close>

theorem simulator_state_effects:
  "(readings s \<noteq> [] \<longrightarrow> initializeSimulatorData U now k s = (s, k)) \<and>
   (readings s = [] \<longrightarrow>
      length (readings (fst (initializeSimulatorData U now k s))) = 31 \<and>
      events (fst (initializeSimulatorData U now k s)) = story_events now \<and>
      tank (fst (initializeSimulatorData U now k s)) = tank s \<and>
      analyses (fst (initializeSimulatorData U now k s)) = analyses s) \<and>
   fst (initializeSimulatorData U' now' k' (fst (initializeSimulatorData U now k s)))
     = fst (initializeSimulatorData U now k s) \<and>
   readings (fst (snd (post_readings U now k s))) = fst (post_readings U now k s) # readings s \<and>
   tank (fst (snd (post_readings U now k s))) = tank s \<and>
   events (fst (snd (post_readings U now k s))) = events s \<and>
   analyses (fst (snd (post_readings U now k s))) = analyses s \<and>
   snd (post_analyze now s) = s"
proof (intro conjI impI)
  assume "readings s \<noteq> []"
  then show "initializeSimulatorData U now k s = (s, k)"
    by (simp add: initializeSimulatorData_def)
next
  assume e: "readings s = []"
  show "length (readings (fst (initializeSimulatorData U now k s))) = 31"
    by (simp add: initializeSimulatorData_fresh [OF e] story_loop_length)
  show "events (fst (initializeSimulatorData U now k s)) = story_events now"
    using e by (simp add: initializeSimulatorData_def split: prod.splits)
  show "tank (fst (initializeSimulatorData U now k s)) = tank s"
    using e by (simp add: initializeSimulatorData_def split: prod.splits)
  show "analyses (fst (initializeSimulatorData U now k s)) = analyses s"
    using e by (simp add: initializeSimulatorData_def split: prod.splits)
next
  have "readings (fst (initializeSimulatorData U now k s)) \<noteq> []"
    by (rule initializeSimulatorData_nonempty)
  then show "fst (initializeSimulatorData U' now' k' (fst (initializeSimulatorData U now k s)))
     = fst (initializeSimulatorData U now k s)"
    by (simp add: initializeSimulatorData_def [of U' now' k'])
next
  show "readings (fst (snd (post_readings U now k s))) = fst (post_readings U now k s) # readings s"
    by (simp add: post_readings_def split: prod.splits)
  show "tank (fst (snd (post_readings U now k s))) = tank s"
    by (simp add: post_readings_def split: prod.splits)
  show "events (fst (snd (post_readings U now k s))) = events s"
    by (simp add: post_readings_def split: prod.splits)
  show "analyses (fst (snd (post_readings U now k s))) = analyses s"
    by (simp add: post_readings_def split: prod.splits)
  show "snd (post_analyze now s) = s"
    by (simp add: post_analyze_def)
qed

theorem simulator_state_effects_witness:
  "readings (simulatorData_init ()) = [] \<and>
   length (readings (fst (initializeSimulatorData (const_draws (1 / 2)) 0 0 (simulatorData_init ())))) = 31 \<and>
   readings (fst (initializeSimulatorData (const_draws (1 / 2)) 0 0 (simulatorData_init ()))) \<noteq> [] \<and>
   initializeSimulatorData (const_draws 0) 5 7
       (fst (initializeSimulatorData (const_draws (1 / 2)) 0 0 (simulatorData_init ())))
     = (fst (initializeSimulatorData (const_draws (1 / 2)) 0 0 (simulatorData_init ())), 7)"
proof -
  let ?s = "simulatorData_init ()"
  let ?s' = "fst (initializeSimulatorData (const_draws (1 / 2)) 0 0 ?s)"
  have e: "readings ?s = []" by (simp add: simulatorData_init_def)
  from simulator_state_effects [of ?s "const_draws (1 / 2)" 0 0] e
  have l: "length (readings ?s') = 31" by blast
  then have n: "readings ?s' \<noteq> []" by auto
  from simulator_state_effects [of ?s' "const_draws 0" 5 7] n
  have "initializeSimulatorData (const_draws 0) 5 7 ?s' = (?s', 7)" by blast
  with e l n show ?thesis by blast
qed

text \<open>
  Claim C9 as stated fails: the store a later request sees has one reading more after
  \<open>POST /tanks/:tankId/readings\<close> than before.
\<close>

theorem post_readings_counterexample:
  "length (readings (simulatorData_init ())) = 0 \<and>
   length (readings (fst (snd (post_readings (const_draws (1 / 2)) 0 0 (simulatorData_init ()))))) = 1"
  by (simp add: post_readings_def simulatorData_init_def split: prod.splits)

end
